theory Spec2Isabelle
  imports Complex_Main
begin

section \<open>Data model\<close>

text \<open>
  The program keeps its holdings as a list of JSON objects (Python dicts). Every key is
  read with \<open>asset['key']\<close>, which raises \<open>KeyError\<close> when the key is absent, and two keys
  (\<open>type\<close>, \<open>currency\<close>) are filled in with \<open>setdefault\<close>. An asset is therefore a record
  whose eight keys are each present (\<open>Some\<close>) or absent (\<open>None\<close>). Keys other than these
  eight are never read or written by the program and are left out.

  Numbers are Python floats and ints in the source; they are modelled as exact rationals,
  so rounding errors of binary floating point are outside this development.

  The program's string literals are Chinese; they are given here by their UTF-8 bytes.
  The names follow the pinyin of the literal.
\<close>

definition GUPIAO :: string where
  \<comment> \<open>the literal "gupiao" (stock), the asset type of an equity\<close>
  "GUPIAO = [CHR 0xE8, CHR 0x82, CHR 0xA1, CHR 0xE7, CHR 0xA5, CHR 0xA8]"

definition ETF_JIJIN :: string where
  \<comment> \<open>the literal "ETF jijin" (ETF fund), the asset type of a fund\<close>
  "ETF_JIJIN = ''ETF'' @ [CHR 0xE5, CHR 0x9F, CHR 0xBA, CHR 0xE9, CHR 0x87, CHR 0x91]"

definition A_GU :: string where
  \<comment> \<open>the literal "A gu" (A shares), the domestic market\<close>
  "A_GU = ''A'' @ [CHR 0xE8, CHR 0x82, CHR 0xA1]"

definition GANGGU :: string where
  \<comment> \<open>the literal "ganggu" (Hong Kong shares), the Hong Kong market\<close>
  "GANGGU = [CHR 0xE6, CHR 0xB8, CHR 0xAF, CHR 0xE8, CHR 0x82, CHR 0xA1]"

definition CNY :: string where
  "CNY = ''CNY''"

definition HKD :: string where
  "HKD = ''HKD''"

record asset =
  symbol :: "string option"
  atype :: "string option"  \<comment> \<open>the key \<open>type\<close>\<close>
  market :: "string option"
  shares :: "rat option"
  cost_price :: "rat option"
  name :: "string option"
  current_price :: "rat option"
  currency :: "string option"

datatype error =
    KeyError string
  | ZeroDivisionError
  | JSONDecodeError

text \<open>Reading a key: \<open>asset['key']\<close>.\<close>

definition getitem :: "string \<Rightarrow> 'a option \<Rightarrow> error + 'a" where
  "getitem key v = (case v of None \<Rightarrow> Inl (KeyError key) | Some x \<Rightarrow> Inr x)"

text \<open>\<open>d.setdefault(key, default)\<close> on one key: an absent key gets the default, a present
  one keeps its value.\<close>

definition setdefault :: "'a option \<Rightarrow> 'a \<Rightarrow> 'a option" where
  "setdefault v d = (case v of None \<Rightarrow> Some d | Some x \<Rightarrow> Some x)"

section \<open>Return computation\<close>

text \<open>Python's \<open>/\<close> raises on a zero divisor.\<close>

definition py_div :: "rat \<Rightarrow> rat \<Rightarrow> error + rat" where
  "py_div a b = (if b = 0 then Inl ZeroDivisionError else Inr (a / b))"

definition calculate_return :: "rat \<Rightarrow> rat \<Rightarrow> error + rat" where
  "calculate_return cost current =
     (if cost = 0 then Inr 0
      else case py_div (current - cost) cost of
             Inl e \<Rightarrow> Inl e
           | Inr q \<Rightarrow> Inr (q * 100))"

section \<open>Ledger store\<close>

text \<open>
  The data file either does not exist, or holds bytes that \<open>json.load\<close> rejects, or holds
  a list of asset objects. \<open>json.dump\<close> followed by \<open>json.load\<close> is taken to give back the
  list that was written.
\<close>

datatype file_state = Missing | Corrupt | Stored "asset list"

text \<open>
  One round of the migration loop. The default of the second \<open>setdefault\<close> is an argument,
  so \<open>item['market']\<close> is evaluated, and raises on an absent market, also when the currency
  is present.
\<close>

definition migrate_item :: "asset \<Rightarrow> error + asset" where
  "migrate_item item =
     (let item1 = item\<lparr>atype := setdefault (atype item) GUPIAO\<rparr>
      in case getitem ''market'' (market item1) of
           Inl e \<Rightarrow> Inl e
         | Inr m \<Rightarrow>
             Inr (item1\<lparr>currency :=
                    setdefault (currency item1) (if m = GANGGU then HKD else CNY)\<rparr>))"

fun migrate_all :: "asset list \<Rightarrow> error + asset list" where
  "migrate_all [] = Inr []"
| "migrate_all (item # items) =
     (case migrate_item item of
        Inl e \<Rightarrow> Inl e
      | Inr item' \<Rightarrow>
          (case migrate_all items of
             Inl e \<Rightarrow> Inl e
           | Inr items' \<Rightarrow> Inr (item' # items')))"

definition load_portfolio :: "file_state \<Rightarrow> error + asset list" where
  "load_portfolio f =
     (case f of
        Missing \<Rightarrow> Inr []
      | Corrupt \<Rightarrow> Inl JSONDecodeError
      | Stored portfolio \<Rightarrow> migrate_all portfolio)"

definition save_portfolio :: "asset list \<Rightarrow> file_state" where
  "save_portfolio portfolio = Stored portfolio"

section \<open>Strings and rounding of the Python library\<close>

text \<open>
  \<open>str.strip()\<close> removes leading and trailing whitespace, \<open>str.zfill(n)\<close> pads with zeros on
  the left up to width \<open>n\<close>, after a leading sign. Symbols are taken to be ASCII, where a
  character is one byte.
\<close>

definition isspace :: "char \<Rightarrow> bool" where
  "isspace c =
     (c = CHR 0x20 \<or> c = CHR 0x09 \<or> c = CHR 0x0A \<or> c = CHR 0x0B \<or> c = CHR 0x0C \<or>
      c = CHR 0x0D \<or> c = CHR 0x1C \<or> c = CHR 0x1D \<or> c = CHR 0x1E \<or> c = CHR 0x1F)"

definition strip :: "string \<Rightarrow> string" where
  "strip s = rev (dropWhile isspace (rev (dropWhile isspace s)))"

definition zfill :: "nat \<Rightarrow> string \<Rightarrow> string" where
  "zfill width s =
     (if width \<le> length s then s
      else case s of
             [] \<Rightarrow> replicate width CHR ''0''
           | c # rest \<Rightarrow>
               if c = CHR ''+'' \<or> c = CHR ''-''
               then c # replicate (width - length s) CHR ''0'' @ rest
               else replicate (width - length s) CHR ''0'' @ s)"

text \<open>\<open>round(x, 3)\<close>: to three decimal places, a tie going to the even neighbour.\<close>

definition round_half_even :: "rat \<Rightarrow> int" where
  "round_half_even x =
     (let f = \<lfloor>x\<rfloor>; d = x - of_int f
      in if d < 1 / 2 then f
         else if 1 / 2 < d then f + 1
         else if even f then f else f + 1)"

definition round3 :: "rat \<Rightarrow> rat" where
  "round3 x = of_int (round_half_even (x * 1000)) / 1000"

section \<open>Providers and the cache decorator\<close>

text \<open>
  The market-data and exchange-rate providers are outside the program. An environment
  gives what each of them answers at the moment of a call, \<open>None\<close> when the call (or the
  decoding of its answer) raises, and the current time in seconds.
\<close>

datatype cell = Number rat | NotNumber

record stock_individual_info =
  short_name :: "string option"  \<comment> \<open>the item "gupiao jiancheng"\<close>
  latest :: "cell option"  \<comment> \<open>the item "zuixin"\<close>

record hk_spot_row =
  hk_code :: string
  hk_name :: string
  hk_latest :: rat

record etf_spot_row =
  etf_code :: string
  etf_name :: string
  etf_latest :: cell

record env =
  now :: nat
  exchange_rate_api :: "rat option"
  stock_individual_info_em :: "string \<Rightarrow> stock_individual_info option"
  stock_hk_spot_em :: "hk_spot_row list option"
  fund_etf_spot_em :: "etf_spot_row list option"

record asset_info =
  info_name :: string
  info_current_price :: rat
  info_currency :: string


definition get_stock_info_body :: "env \<Rightarrow> string \<Rightarrow> string \<Rightarrow> asset_info" where
  "get_stock_info_body e symbol0 mkt =
     (let symbol = strip symbol0;
          failed = \<lparr>info_name = symbol, info_current_price = 0,
                    info_currency = (if mkt = GANGGU then HKD else CNY)\<rparr>
      in if mkt = A_GU then
           (let symbol_str = zfill 6 symbol
            in case stock_individual_info_em e symbol_str of
                 None \<Rightarrow> failed
               | Some info_dict \<Rightarrow>
                   (case (case latest info_dict of None \<Rightarrow> Number 0 | Some c \<Rightarrow> c) of
                      NotNumber \<Rightarrow> failed
                    | Number p \<Rightarrow>
                        \<lparr>info_name =
                           (case short_name info_dict of
                              None \<Rightarrow> GUPIAO @ '' '' @ symbol_str
                            | Some n \<Rightarrow> n),
                         info_current_price = p, info_currency = CNY\<rparr>))
         else
           (case stock_hk_spot_em e of
              None \<Rightarrow> failed
            | Some df \<Rightarrow>
                (case filter (\<lambda>r. hk_code r = zfill 5 symbol) df of
                   [] \<Rightarrow>
                     \<lparr>info_name = GANGGU @ '' '' @ symbol, info_current_price = 0,
                      info_currency = HKD\<rparr>
                 | stock_row # _ \<Rightarrow>
                     \<lparr>info_name = hk_name stock_row,
                      info_current_price = hk_latest stock_row,
                      info_currency = HKD\<rparr>)))"

definition get_etf_info_body :: "env \<Rightarrow> string \<Rightarrow> asset_info" where
  "get_etf_info_body e symbol0 =
     (let symbol = zfill 6 (strip symbol0);
          placeholder = \<lparr>info_name = ETF_JIJIN @ '' '' @ symbol, info_current_price = 0,
                         info_currency = CNY\<rparr>
      in case fund_etf_spot_em e of
           None \<Rightarrow> placeholder
         | Some etf_df \<Rightarrow>
             (case filter (\<lambda>r. etf_code r = symbol) etf_df of
                [] \<Rightarrow> placeholder
              | etf_row # _ \<Rightarrow>
                  \<lparr>info_name = etf_name etf_row,
                   info_current_price =
                     round3 (case etf_latest etf_row of Number p \<Rightarrow> p | NotNumber \<Rightarrow> 0),
                   info_currency = CNY\<rparr>))"

text \<open>
  The decorator \<open>st.cache_data(ttl=...)\<close> belongs to the Streamlit library: it keeps, per
  argument tuple, the last value returned and the time it was stored, and runs the body
  again only when there is no entry younger than the time to live.
\<close>

type_synonym ('k, 'v) cache = "'k \<Rightarrow> ('v \<times> nat) option"

definition cache_lookup :: "nat \<Rightarrow> nat \<Rightarrow> ('k, 'v) cache \<Rightarrow> 'k \<Rightarrow> 'v option" where
  "cache_lookup ttl t c k =
     (case c k of
        None \<Rightarrow> None
      | Some (v, stored) \<Rightarrow> if t < stored + ttl then Some v else None)"

datatype request =
    ExchangeRateApi
  | StockIndividualInfoEm string
  | StockHkSpotEm
  | FundEtfSpotEm

text \<open>
  The state of one session: the ledger in memory, the data file, the three caches and
  the log of the calls made to the providers.
\<close>

record world =
  portfolio :: "asset list"
  data_file :: file_state
  rate_cache :: "(unit, rat) cache"
  stock_cache :: "(string \<times> string, asset_info) cache"
  etf_cache :: "(string, asset_info) cache"
  requests :: "request list"


definition get_stock_info :: "env \<Rightarrow> string \<Rightarrow> string \<Rightarrow> world \<Rightarrow> asset_info \<times> world" where
  "get_stock_info e symb mkt w =
     (case cache_lookup 300 (now e) (stock_cache w) (symb, mkt) of
        Some i \<Rightarrow> (i, w)
      | None \<Rightarrow>
          (let i = get_stock_info_body e symb mkt
           in (i, w\<lparr>stock_cache := (stock_cache w)((symb, mkt) \<mapsto> (i, now e)),
                    requests := requests w @
                      [if mkt = A_GU then StockIndividualInfoEm (zfill 6 (strip symb))
                       else StockHkSpotEm]\<rparr>)))"

definition get_etf_info :: "env \<Rightarrow> string \<Rightarrow> world \<Rightarrow> asset_info \<times> world" where
  "get_etf_info e symb w =
     (case cache_lookup 300 (now e) (etf_cache w) symb of
        Some i \<Rightarrow> (i, w)
      | None \<Rightarrow>
          (let i = get_etf_info_body e symb
           in (i, w\<lparr>etf_cache := (etf_cache w)(symb \<mapsto> (i, now e)),
                    requests := requests w @ [FundEtfSpotEm]\<rparr>)))"

section \<open>Adding an asset\<close>

text \<open>
  The sidebar form. The market selector exists only for an equity; a fund is always put
  on the A-share market. The outcome is what the form reports: success, the error message
  asking to fill in the form completely, or nothing when the form was not submitted.
\<close>

record add_form =
  form_asset_type :: string
  form_symbol :: string
  form_market :: string
  form_shares :: rat
  form_cost_price :: rat
  submitted :: bool

datatype add_outcome = Added | Rejected | Idle

definition add_asset :: "env \<Rightarrow> add_form \<Rightarrow> world \<Rightarrow> add_outcome \<times> world" where
  "add_asset e form w =
     (let asset_type = form_asset_type form;
          symb = form_symbol form;
          mkt = (if asset_type = GUPIAO then form_market form else A_GU)
      in if submitted form \<and> symb \<noteq> [] \<and> 0 < form_shares form \<and> 0 < form_cost_price form
         then
           (let (info, w1) =
                  (if asset_type = ETF_JIJIN then get_etf_info e symb w
                   else get_stock_info e symb mkt w);
                new_asset =
                  \<lparr>symbol = Some symb,
                   atype = Some asset_type,
                   market = Some mkt,
                   shares = Some (form_shares form),
                   cost_price =
                     Some (if asset_type = ETF_JIJIN then round3 (form_cost_price form)
                           else form_cost_price form),
                   name = Some (info_name info),
                   current_price = Some (info_current_price info),
                   currency = Some (info_currency info)\<rparr>;
                p = portfolio w1 @ [new_asset]
            in (Added, w1\<lparr>portfolio := p, data_file := save_portfolio p\<rparr>))
         else if submitted form then (Rejected, w)
         else (Idle, w))"

section \<open>Valuation\<close>

text \<open>
  The loop that prepares the table. For each asset it first makes sure the keys \<open>type\<close> and
  \<open>currency\<close> exist, writing the defaults into the ledger entry itself, then computes the
  values and adds them to the running totals. A missing key stops the loop with a
  \<open>KeyError\<close>; the entries visited so far keep what \<open>setdefault\<close> wrote.

  The table row of the source holds the values formatted as text; the row here holds them
  before formatting, together with the values that only enter the totals.
\<close>

definition sum_bind :: "error + 'a \<Rightarrow> ('a \<Rightarrow> error + 'b) \<Rightarrow> error + 'b" where
  "sum_bind r f = (case r of Inl e \<Rightarrow> Inl e | Inr x \<Rightarrow> f x)"

definition ensure_fields :: "asset \<Rightarrow> asset" where
  "ensure_fields a =
     (let a1 = a\<lparr>atype := setdefault (atype a) GUPIAO\<rparr>
      in a1\<lparr>currency := setdefault (currency a1) CNY\<rparr>)"

record valuation =
  market_value :: rat
  cost_value :: rat
  return_rate :: rat
  profit :: rat
  market_value_cny :: rat
  cost_value_cny :: rat
  profit_cny :: rat

definition asset_valuation :: "rat \<Rightarrow> asset \<Rightarrow> error + valuation" where
  "asset_valuation hkd_to_cny a =
     sum_bind (getitem ''shares'' (shares a)) (\<lambda>sh.
     sum_bind (getitem ''current_price'' (current_price a)) (\<lambda>cur.
     sum_bind (getitem ''cost_price'' (cost_price a)) (\<lambda>cost.
     sum_bind (calculate_return cost cur) (\<lambda>rr.
     sum_bind (getitem ''currency'' (currency a)) (\<lambda>ccy.
       (let mv = sh * cur; cv = sh * cost; pr = mv - cv
        in Inr (if ccy = HKD
                then \<lparr>market_value = mv, cost_value = cv, return_rate = rr, profit = pr,
                      market_value_cny = mv * hkd_to_cny,
                      cost_value_cny = cv * hkd_to_cny,
                      profit_cny = pr * hkd_to_cny\<rparr>
                else \<lparr>market_value = mv, cost_value = cv, return_rate = rr, profit = pr,
                      market_value_cny = mv,
                      cost_value_cny = cv,
                      profit_cny = pr\<rparr>)))))))"

record display_row =
  row_type :: string
  row_name :: string
  row_symbol :: string
  row_market :: string
  row_values :: valuation

definition make_row :: "asset \<Rightarrow> valuation \<Rightarrow> error + display_row" where
  "make_row a v =
     sum_bind (getitem ''type'' (atype a)) (\<lambda>t.
     sum_bind (getitem ''name'' (name a)) (\<lambda>n.
     sum_bind (getitem ''symbol'' (symbol a)) (\<lambda>s.
     sum_bind (getitem ''market'' (market a)) (\<lambda>m.
       Inr \<lparr>row_type = t, row_name = n, row_symbol = s, row_market = m,
            row_values = v\<rparr>))))"

record totals =
  display_data :: "display_row list"
  total_assets :: rat
  total_investment :: rat
  total_profit :: rat

fun render_loop :: "rat \<Rightarrow> asset list \<Rightarrow> totals \<Rightarrow> asset list \<times> (error + totals)" where
  "render_loop hkd_to_cny [] acc = ([], Inr acc)"
| "render_loop hkd_to_cny (a # rest) acc =
     (let a' = ensure_fields a
      in case sum_bind (asset_valuation hkd_to_cny a')
                (\<lambda>v. sum_bind (make_row a' v) (\<lambda>row. Inr (v, row))) of
           Inl e \<Rightarrow> (a' # rest, Inl e)
         | Inr (v, row) \<Rightarrow>
             (let acc' = \<lparr>display_data = display_data acc @ [row],
                          total_assets = total_assets acc + market_value_cny v,
                          total_investment = total_investment acc + cost_value_cny v,
                          total_profit = total_profit acc + profit_cny v\<rparr>;
                  (rest', r) = render_loop hkd_to_cny rest acc'
              in (a' # rest', r)))"

definition aggregate :: "rat \<Rightarrow> asset list \<Rightarrow> asset list \<times> (error + totals)" where
  "aggregate hkd_to_cny p =
     render_loop hkd_to_cny p
       \<lparr>display_data = [], total_assets = 0, total_investment = 0, total_profit = 0\<rparr>"

text \<open>The percentage shown beside the total profit.\<close>

definition total_return_pct :: "totals \<Rightarrow> error + rat" where
  "total_return_pct t =
     (if 0 < total_investment t
      then sum_bind (py_div (total_profit t) (total_investment t)) (\<lambda>q. Inr (q * 100))
      else Inr 0)"

section \<open>The migration in the words of the specification\<close>

text \<open>
  The specification describes the migration of one record directly: an absent asset type
  becomes the equity type, an absent currency is derived from the market. This second
  definition follows those words; it is compared with \<open>migrate_item\<close> below.
\<close>

definition spec_migrate :: "asset \<Rightarrow> asset" where
  "spec_migrate x =
     x\<lparr>atype := Some (case atype x of None \<Rightarrow> GUPIAO | Some t \<Rightarrow> t),
       currency := Some (case currency x of
                           None \<Rightarrow> if market x = Some GANGGU then HKD else CNY
                         | Some c \<Rightarrow> c)\<rparr>"

section \<open>Example inputs\<close>

text \<open>A legacy record of a Hong Kong holding, written before the keys \<open>type\<close> and
  \<open>currency\<close> existed.\<close>

definition legacy_hk_record :: asset where
  "legacy_hk_record =
     \<lparr>symbol = Some ''00700'', atype = None, market = Some GANGGU, shares = Some 50,
      cost_price = Some 20, name = Some ''Tencent'', current_price = Some 18,
      currency = None\<rparr>"

definition domestic_equity :: asset where
  "domestic_equity =
     \<lparr>symbol = Some ''000001'', atype = Some GUPIAO, market = Some A_GU, shares = Some 100,
      cost_price = Some 10, name = Some ''Ping An Bank'', current_price = Some 12,
      currency = Some CNY\<rparr>"

definition foreign_equity :: asset where
  "foreign_equity =
     \<lparr>symbol = Some ''00700'', atype = Some GUPIAO, market = Some GANGGU, shares = Some 50,
      cost_price = Some 20, name = Some ''Tencent'', current_price = Some 18,
      currency = Some HKD\<rparr>"


text \<open>A session that has just started: nothing loaded, nothing cached, no call made.\<close>

definition fresh_session :: world where
  "fresh_session =
     \<lparr>portfolio = [], data_file = Missing, rate_cache = (\<lambda>_. None),
      stock_cache = (\<lambda>_. None), etf_cache = (\<lambda>_. None), requests = []\<rparr>"

text \<open>At time \<open>t\<close> every provider call raises; and the same with the exchange-rate
  provider answering \<open>r\<close>.\<close>

definition providers_down :: "nat \<Rightarrow> env" where
  "providers_down t =
     \<lparr>now = t, exchange_rate_api = None, stock_individual_info_em = (\<lambda>_. None),
      stock_hk_spot_em = None, fund_etf_spot_em = None\<rparr>"


section \<open>Auxiliary facts\<close>

lemmas literals = GUPIAO_def ETF_JIJIN_def A_GU_def GANGGU_def CNY_def HKD_def

lemmas valuation_defs = ensure_fields_def setdefault_def asset_valuation_def make_row_def
  sum_bind_def getitem_def calculate_return_def py_div_def Let_def


subsection \<open>Migration\<close>

lemma migrate_item_fixed:
  "migrate_item a = Inr b \<Longrightarrow> migrate_item b = Inr b"
  by (auto simp: migrate_item_def getitem_def setdefault_def Let_def split: option.splits)

lemma migrate_all_fixed:
  "migrate_all xs = Inr p \<Longrightarrow> migrate_all p = Inr p"
proof (induction xs arbitrary: p)
  case Nil
  then show ?case by simp
next
  case (Cons x xs)
  then show ?case
    by (auto split: sum.splits dest: migrate_item_fixed)
qed

lemma load_after_save:
  "load_portfolio f = Inr p \<Longrightarrow> load_portfolio (save_portfolio p) = Inr p"
  by (cases f) (auto simp: load_portfolio_def save_portfolio_def dest: migrate_all_fixed)

lemma migrate_item_spec:
  "market x \<noteq> None \<Longrightarrow> migrate_item x = Inr (spec_migrate x)"
  by (auto simp: migrate_item_def spec_migrate_def getitem_def setdefault_def Let_def
      split: option.splits)

lemma migrate_all_spec:
  "\<forall>x\<in>set xs. market x \<noteq> None \<Longrightarrow> migrate_all xs = Inr (map spec_migrate xs)"
  by (induction xs) (simp_all add: migrate_item_spec)

lemma load_legacy:
  "\<forall>x\<in>set xs. market x \<noteq> None \<Longrightarrow> load_portfolio (Stored xs) = Inr (map spec_migrate xs)"
  by (simp add: load_portfolio_def migrate_all_spec)






subsection \<open>The valuation loop and the ledger\<close>




section \<open>Zero-cost safety\<close>

text \<open>
  C7. For every cost price and current price, the return computation yields 0 when the
  cost price is 0 and (current - cost) / cost * 100 otherwise; it never ends in a
  division error, because the division runs only with a non-zero divisor.
\<close>

theorem calculate_return_safe:
  "calculate_return cost current =
     Inr (if cost = 0 then 0 else (current - cost) / cost * 100)"
  by (simp add: calculate_return_def py_div_def)

section \<open>The valuation loop and the ledger\<close>




section \<open>Reporting-currency values and totals\<close>

text \<open>
  C2. For every asset that has its shares, prices and currency, the market value is
  shares times current price, the cost value shares times cost price and the profit their
  difference; the reporting-currency market value, cost value and profit are these native
  values multiplied by the exchange rate when the currency is HKD, and the native values
  unchanged otherwise. For a ledger of one domestic equity (100 shares, cost 10, price 12)
  and one Hong Kong equity (50 shares, cost 20, price 18) at the rate 0.92, the totals are
  2028 (market value), 1920 (cost), 108 (profit), and the total return is 5.625 percent.
\<close>

theorem reporting_currency_values:
  "(shares a = Some sh \<and> current_price a = Some cur \<and> cost_price a = Some cost \<and>
      currency a = Some ccy \<longrightarrow>
      asset_valuation rate a =
        Inr \<lparr>market_value = sh * cur, cost_value = sh * cost,
             return_rate = (if cost = 0 then 0 else (cur - cost) / cost * 100),
             profit = sh * cur - sh * cost,
             market_value_cny = (if ccy = HKD then sh * cur * rate else sh * cur),
             cost_value_cny = (if ccy = HKD then sh * cost * rate else sh * cost),
             profit_cny = (if ccy = HKD then (sh * cur - sh * cost) * rate
                           else sh * cur - sh * cost)\<rparr>)
   \<and> map_sum id
         (\<lambda>t. (total_assets t, total_investment t, total_profit t, total_return_pct t))
         (snd (aggregate (92 / 100) [domestic_equity, foreign_equity])) =
       Inr (2028, 1920, 108, Inr (5625 / 1000))"
proof (intro conjI impI)
  assume "shares a = Some sh \<and> current_price a = Some cur \<and> cost_price a = Some cost \<and>
      currency a = Some ccy"
  then show "asset_valuation rate a =
        Inr \<lparr>market_value = sh * cur, cost_value = sh * cost,
             return_rate = (if cost = 0 then 0 else (cur - cost) / cost * 100),
             profit = sh * cur - sh * cost,
             market_value_cny = (if ccy = HKD then sh * cur * rate else sh * cur),
             cost_value_cny = (if ccy = HKD then sh * cost * rate else sh * cost),
             profit_cny = (if ccy = HKD then (sh * cur - sh * cost) * rate
                           else sh * cur - sh * cost)\<rparr>"
    by (simp add: asset_valuation_def sum_bind_def getitem_def calculate_return_def
        py_div_def Let_def)
next
  show "map_sum id
         (\<lambda>t. (total_assets t, total_investment t, total_profit t, total_return_pct t))
         (snd (aggregate (92 / 100) [domestic_equity, foreign_equity])) =
       Inr (2028, 1920, 108, Inr (5625 / 1000))"
    by (simp add: aggregate_def valuation_defs total_return_pct_def domestic_equity_def foreign_equity_def literals)
qed

text \<open>An asset in HKD with 10 shares, cost 100 and price 110, at the rate 0.92.\<close>

theorem reporting_currency_values_witness:
  "asset_valuation (92 / 100)
     \<lparr>symbol = Some ''00700'', atype = Some GUPIAO, market = Some GANGGU, shares = Some 10,
      cost_price = Some 100, name = Some ''Tencent'', current_price = Some 110,
      currency = Some HKD\<rparr> =
   Inr \<lparr>market_value = 1100, cost_value = 1000, return_rate = 10, profit = 100,
        market_value_cny = 1012, cost_value_cny = 920, profit_cny = 92\<rparr>"
  using reporting_currency_values
    [of "\<lparr>symbol = Some ''00700'', atype = Some GUPIAO, market = Some GANGGU,
          shares = Some 10, cost_price = Some 100, name = Some ''Tencent'',
          current_price = Some 110, currency = Some HKD\<rparr>" 10 110 100 HKD "92 / 100"]
  by simp

section \<open>Exchange rate on provider failure\<close>




section \<open>Currency and market after loading\<close>




section \<open>Quote lookups on provider failure\<close>




section \<open>Validation of an added asset\<close>

text \<open>
  C6. For every submitted form in which the symbol is empty, or the shares are not
  positive, or the cost price is not positive, adding is rejected with the error message
  and the whole state is as before: the ledger in memory, the data file, the caches and
  the log of provider calls. Nothing is appended, nothing is saved, no provider is asked.
\<close>

theorem add_rejects_invalid:
  "submitted form \<Longrightarrow>
   form_symbol form = [] \<or> form_shares form \<le> 0 \<or> form_cost_price form \<le> 0 \<Longrightarrow>
   add_asset e form w = (Rejected, w)"
  by (auto simp: add_asset_def Let_def)

theorem add_rejects_invalid_witness:
  "add_asset (providers_down 0)
     \<lparr>form_asset_type = GUPIAO, form_symbol = ''000001'', form_market = A_GU,
      form_shares = 0, form_cost_price = 10, submitted = True\<rparr> fresh_session =
   (Rejected, fresh_session)"
  using add_rejects_invalid
    [of "\<lparr>form_asset_type = GUPIAO, form_symbol = ''000001'', form_market = A_GU,
          form_shares = 0, form_cost_price = 10, submitted = True\<rparr>"
        "providers_down 0" fresh_session]
  by simp

section \<open>Idempotent migration\<close>

text \<open>
  C8. Loading, saving what was loaded and loading again gives what the first load gave,
  for every state of the data file. For a legacy ledger, whose records have their market
  and may lack the type and the currency, loading succeeds and gives each record with an
  absent type set to the equity type and an absent currency derived from the market (HKD
  for the Hong Kong market, CNY otherwise); loading the saved result changes nothing
  further.
\<close>

theorem load_save_load_idempotent:
  "(case load_portfolio f of
      Inl err \<Rightarrow> Inl err
    | Inr p \<Rightarrow> load_portfolio (save_portfolio p)) = load_portfolio f
   \<and> ((\<forall>x\<in>set xs. market x \<noteq> None) \<longrightarrow>
        load_portfolio (Stored xs) = Inr (map spec_migrate xs)
        \<and> load_portfolio (save_portfolio (map spec_migrate xs)) = Inr (map spec_migrate xs))"
proof (intro conjI impI)
  show "(case load_portfolio f of
      Inl err \<Rightarrow> Inl err
    | Inr p \<Rightarrow> load_portfolio (save_portfolio p)) = load_portfolio f"
    by (simp add: load_after_save split: sum.splits)
next
  assume "\<forall>x\<in>set xs. market x \<noteq> None"
  then show l: "load_portfolio (Stored xs) = Inr (map spec_migrate xs)"
    by (rule load_legacy)
  then show "load_portfolio (save_portfolio (map spec_migrate xs)) = Inr (map spec_migrate xs)"
    by (rule load_after_save)
qed

theorem load_save_load_idempotent_witness:
  "load_portfolio (Stored [legacy_hk_record, domestic_equity]) =
     Inr [foreign_equity, domestic_equity]
   \<and> load_portfolio (save_portfolio [foreign_equity, domestic_equity]) =
     Inr [foreign_equity, domestic_equity]"
  using load_save_load_idempotent
    [of "Stored [legacy_hk_record, domestic_equity]" "[legacy_hk_record, domestic_equity]"]
  by (simp add: spec_migrate_def legacy_hk_record_def domestic_equity_def
      foreign_equity_def literals)

section \<open>The default currency of the valuation loop\<close>



end
